theory Spec2Isabelle
  imports Main
begin

section \<open>Data model of chess.py\<close>

text \<open>
  The enums \<open>Color\<close> and \<open>PieceType\<close>, the class \<open>Piece\<close> (with its mutable flag
  \<open>has_moved\<close>, False on construction) and the class \<open>ChessBoard\<close> with its four fields.
  Python's integers are unbounded, so coordinates are \<open>int\<close>.
  A leading underscore of a Python method name is dropped, since an Isabelle name
  starts with a letter: \<open>_is_valid_pawn_move\<close> is \<open>is_valid_pawn_move\<close> here.
\<close>

datatype Color = WHITE | BLACK

datatype PieceType = PAWN | ROOK | KNIGHT | BISHOP | QUEEN | KING

record Piece =
  color :: Color
  piece_type :: PieceType
  has_moved :: bool

definition new_Piece :: "Color \<Rightarrow> PieceType \<Rightarrow> Piece" where
  "new_Piece c k = \<lparr>color = c, piece_type = k, has_moved = False\<rparr>"

text \<open>
  The exceptions the modelled methods can raise: the explicit \<open>raise ValueError\<close> of
  \<open>get_king_position\<close>, and the AttributeError of reading \<open>piece.color\<close> when
  \<open>piece\<close> is None (in \<open>_is_valid_pawn_move\<close>).
\<close>

datatype error = ValueError | AttributeError

text \<open>
  \<open>Piece.__str__\<close> looks the pair (color, kind) up in a table of one-character strings.
  A Python string is a sequence of Unicode code points, so the model keeps the code
  points: U+2659 is the white pawn, U+265F the black pawn, and so on.
  \<open>str(None)\<close> is the four letters N, o, n, e.
\<close>

type_synonym pystr = "nat list"

definition Piece_str :: "Piece \<Rightarrow> pystr" where
  "Piece_str p =
     (case (color p, piece_type p) of
        (WHITE, PAWN) \<Rightarrow> [0x2659]
      | (WHITE, ROOK) \<Rightarrow> [0x2656]
      | (WHITE, KNIGHT) \<Rightarrow> [0x2658]
      | (WHITE, BISHOP) \<Rightarrow> [0x2657]
      | (WHITE, QUEEN) \<Rightarrow> [0x2655]
      | (WHITE, KING) \<Rightarrow> [0x2654]
      | (BLACK, PAWN) \<Rightarrow> [0x265F]
      | (BLACK, ROOK) \<Rightarrow> [0x265C]
      | (BLACK, KNIGHT) \<Rightarrow> [0x265E]
      | (BLACK, BISHOP) \<Rightarrow> [0x265D]
      | (BLACK, QUEEN) \<Rightarrow> [0x265B]
      | (BLACK, KING) \<Rightarrow> [0x265A])"

definition str_opt :: "Piece option \<Rightarrow> pystr" where
  "str_opt x = (case x of None \<Rightarrow> [78, 111, 110, 101] | Some p \<Rightarrow> Piece_str p)"

text \<open>The dict that \<open>make_move\<close> appends to \<open>move_history\<close>, one field per key.\<close>

record MoveRecord =
  mr_from :: "int \<times> int"
  mr_to :: "int \<times> int"
  mr_piece :: pystr
  mr_captured :: "pystr option"

text \<open>
  \<open>self.board\<close> is a list of eight lists of eight entries, each None or a Piece.
  Every Piece object sits on one square only (the constructor creates one object per
  square and no modelled method duplicates a reference), so the in-place assignment
  \<open>piece.has_moved = True\<close> is an update of the entry of that square.
\<close>

record ChessBoard =
  board :: "Piece option list list"
  current_turn :: Color
  move_history :: "MoveRecord list"
  en_passant_target :: "(int \<times> int) option"

text \<open>
  The shape that \<open>__init__\<close> builds and that no method changes. On a board of another
  shape Python would raise IndexError where HOL's \<open>!\<close> is unspecified, so the theorems
  about board reads assume it.
\<close>

definition board_ok :: "ChessBoard \<Rightarrow> bool" where
  "board_ok s \<longleftrightarrow> length (board s) = 8 \<and> list_all (\<lambda>row. length row = 8) (board s)"

section \<open>Board State Store\<close>

definition get_piece :: "ChessBoard \<Rightarrow> int \<Rightarrow> int \<Rightarrow> Piece option" where
  "get_piece s row col =
     (if 0 \<le> row \<and> row < 8 \<and> 0 \<le> col \<and> col < 8
      then board s ! nat row ! nat col
      else None)"

definition set_piece :: "ChessBoard \<Rightarrow> int \<Rightarrow> int \<Rightarrow> Piece option \<Rightarrow> ChessBoard" where
  "set_piece s row col piece =
     (if 0 \<le> row \<and> row < 8 \<and> 0 \<le> col \<and> col < 8
      then s\<lparr>board := (board s)[nat row := (board s ! nat row)[nat col := piece]]\<rparr>
      else s)"

definition is_valid_position :: "int \<Rightarrow> int \<Rightarrow> bool" where
  "is_valid_position row col \<longleftrightarrow> 0 \<le> row \<and> row < 8 \<and> 0 \<le> col \<and> col < 8"

definition is_empty :: "ChessBoard \<Rightarrow> int \<Rightarrow> int \<Rightarrow> bool" where
  "is_empty s row col \<longleftrightarrow> is_valid_position row col \<and> board s ! nat row ! nat col = None"

text \<open>
  \<open>_setup_initial_position\<close>: the first loop writes the pawns of rows 1 and 6, the
  second the back ranks of rows 0 and 7, column by column.
\<close>

definition piece_order :: "PieceType list" where
  "piece_order = [ROOK, KNIGHT, BISHOP, QUEEN, KING, BISHOP, KNIGHT, ROOK]"

definition setup_initial_position :: "ChessBoard \<Rightarrow> ChessBoard" where
  "setup_initial_position s =
     (let s1 = fold (\<lambda>col t.
                 let b1 = (board t)[1 := (board t ! 1)[col := Some (new_Piece BLACK PAWN)]];
                     b2 = b1[6 := (b1 ! 6)[col := Some (new_Piece WHITE PAWN)]]
                 in t\<lparr>board := b2\<rparr>) [0..<8] s
      in fold (\<lambda>(col, k) t.
                 let b1 = (board t)[0 := (board t ! 0)[col := Some (new_Piece BLACK k)]];
                     b2 = b1[7 := (b1 ! 7)[col := Some (new_Piece WHITE k)]]
                 in t\<lparr>board := b2\<rparr>) (enumerate 0 piece_order) s1)"

definition new_ChessBoard :: ChessBoard where
  "new_ChessBoard =
     setup_initial_position
       \<lparr>board = replicate 8 (replicate 8 None), current_turn = WHITE,
        move_history = [], en_passant_target = None\<rparr>"

section \<open>Movement Rule Engine\<close>

text \<open>
  \<open>_is_path_clear\<close>. The steps are fixed before the loop; the cursor starts one step after
  \<open>from\<close> and moves by one step per iteration, so in iteration \<open>k\<close> (counted from 1) it
  is \<open>from + k * step\<close>. The loop function carries \<open>k\<close> for the cursor: with both steps 0
  the cursor is \<open>to\<close> at once, otherwise it leaves the board after at most eight
  iterations, where \<open>is_empty\<close> is False. This is its termination proof.
\<close>

definition row_step_of :: "int \<Rightarrow> int \<Rightarrow> int" where
  "row_step_of from_row to_row =
     (if to_row = from_row then 0 else (if to_row > from_row then 1 else -1))"

definition col_step_of :: "int \<Rightarrow> int \<Rightarrow> int" where
  "col_step_of from_col to_col =
     (if to_col = from_col then 0 else (if to_col > from_col then 1 else -1))"

function is_path_clear_loop ::
  "ChessBoard \<Rightarrow> int \<Rightarrow> int \<Rightarrow> int \<Rightarrow> int \<Rightarrow> nat \<Rightarrow> bool" where
  "is_path_clear_loop s from_row from_col to_row to_col k =
     (let current_row = from_row + int k * row_step_of from_row to_row;
          current_col = from_col + int k * col_step_of from_col to_col
      in if current_row \<noteq> to_row \<or> current_col \<noteq> to_col
         then (if \<not> is_empty s current_row current_col then False
               else is_path_clear_loop s from_row from_col to_row to_col (Suc k))
         else True)"
  by pat_completeness auto
termination
proof (relation "measure (\<lambda>(s, from_row, from_col, to_row, to_col, k).
    (if row_step_of from_row to_row = 1 then nat (8 - (from_row + int k))
     else if row_step_of from_row to_row = -1 then nat (from_row - int k + 1)
     else if col_step_of from_col to_col = 1 then nat (8 - (from_col + int k))
     else nat (from_col - int k + 1)))", goal_cases)
  case 1
  show ?case by simp
next
  case (2 s from_row from_col to_row to_col k current_row current_col)
  then show ?case
    by (auto simp: row_step_of_def col_step_of_def is_empty_def is_valid_position_def
        split: if_splits)
qed

definition is_path_clear :: "ChessBoard \<Rightarrow> int \<Rightarrow> int \<Rightarrow> int \<Rightarrow> int \<Rightarrow> bool" where
  "is_path_clear s from_row from_col to_row to_col =
     is_path_clear_loop s from_row from_col to_row to_col 1"

text \<open>
  \<open>_is_valid_pawn_move\<close> reads \<open>piece.color\<close> with no test of \<open>piece\<close>: on an empty
  origin that is an AttributeError. The two forward tests and the two capture tests
  are in the order of the source.
\<close>

definition is_valid_pawn_move ::
  "ChessBoard \<Rightarrow> int \<Rightarrow> int \<Rightarrow> int \<Rightarrow> int \<Rightarrow> error + bool" where
  "is_valid_pawn_move s from_row from_col to_row to_col =
     (case get_piece s from_row from_col of
        None \<Rightarrow> Inl AttributeError
      | Some piece \<Rightarrow>
          (let direction = (if color piece = WHITE then -1 else 1);
               start_row = (if color piece = WHITE then 6 else 1)
           in if from_col = to_col \<and> is_empty s to_row to_col
                 \<and> (to_row = from_row + direction
                      \<or> (from_row = start_row \<and> to_row = from_row + 2 * direction))
              then Inr True
              else if \<bar>to_col - from_col\<bar> = 1 \<and> to_row = from_row + direction
                 \<and> ((case get_piece s to_row to_col of
                         None \<Rightarrow> False
                       | Some target_piece \<Rightarrow> color target_piece \<noteq> color piece)
                      \<or> Some (to_row, to_col) = en_passant_target s)
              then Inr True
              else Inr False))"

definition is_valid_rook_move :: "ChessBoard \<Rightarrow> int \<Rightarrow> int \<Rightarrow> int \<Rightarrow> int \<Rightarrow> bool" where
  "is_valid_rook_move s from_row from_col to_row to_col =
     (if from_row \<noteq> to_row \<and> from_col \<noteq> to_col then False
      else is_path_clear s from_row from_col to_row to_col)"

definition is_valid_knight_move :: "int \<Rightarrow> int \<Rightarrow> int \<Rightarrow> int \<Rightarrow> bool" where
  "is_valid_knight_move from_row from_col to_row to_col =
     (let row_diff = \<bar>to_row - from_row\<bar>; col_diff = \<bar>to_col - from_col\<bar>
      in (row_diff = 2 \<and> col_diff = 1) \<or> (row_diff = 1 \<and> col_diff = 2))"

definition is_valid_bishop_move :: "ChessBoard \<Rightarrow> int \<Rightarrow> int \<Rightarrow> int \<Rightarrow> int \<Rightarrow> bool" where
  "is_valid_bishop_move s from_row from_col to_row to_col =
     (if \<bar>to_row - from_row\<bar> \<noteq> \<bar>to_col - from_col\<bar> then False
      else is_path_clear s from_row from_col to_row to_col)"

definition is_valid_queen_move :: "ChessBoard \<Rightarrow> int \<Rightarrow> int \<Rightarrow> int \<Rightarrow> int \<Rightarrow> bool" where
  "is_valid_queen_move s from_row from_col to_row to_col =
     (is_valid_rook_move s from_row from_col to_row to_col
      \<or> is_valid_bishop_move s from_row from_col to_row to_col)"

text \<open>
  \<open>_is_valid_castling\<close>: the rook tests read the kind and the flag of the corner piece
  and the emptiness of two squares (kingside) or three (queenside); \<open>to_row\<close> is not
  read, and neither is the rook's color.
\<close>

definition is_valid_castling :: "ChessBoard \<Rightarrow> int \<Rightarrow> int \<Rightarrow> int \<Rightarrow> int \<Rightarrow> bool" where
  "is_valid_castling s from_row from_col to_row to_col =
     (case get_piece s from_row from_col of
        None \<Rightarrow> False
      | Some piece \<Rightarrow>
          if piece_type piece \<noteq> KING \<or> has_moved piece then False
          else if color piece = WHITE \<and> from_row \<noteq> 7 then False
          else if color piece = BLACK \<and> from_row \<noteq> 0 then False
          else if to_col = from_col + 2
                 \<and> (case get_piece s from_row 7 of
                        None \<Rightarrow> False
                      | Some rook \<Rightarrow> piece_type rook = ROOK \<and> \<not> has_moved rook
                          \<and> is_empty s from_row (from_col + 1)
                          \<and> is_empty s from_row (from_col + 2))
          then True
          else if to_col = from_col - 2
                 \<and> (case get_piece s from_row 0 of
                        None \<Rightarrow> False
                      | Some rook \<Rightarrow> piece_type rook = ROOK \<and> \<not> has_moved rook
                          \<and> is_empty s from_row (from_col - 1)
                          \<and> is_empty s from_row (from_col - 2)
                          \<and> is_empty s from_row (from_col - 3))
          then True
          else False)"

definition is_valid_king_move :: "ChessBoard \<Rightarrow> int \<Rightarrow> int \<Rightarrow> int \<Rightarrow> int \<Rightarrow> bool" where
  "is_valid_king_move s from_row from_col to_row to_col =
     (let row_diff = \<bar>to_row - from_row\<bar>; col_diff = \<bar>to_col - from_col\<bar>
      in if row_diff \<le> 1 \<and> col_diff \<le> 1 then True
         else is_valid_castling s from_row from_col to_row to_col)"

definition is_valid_move_internal ::
  "ChessBoard \<Rightarrow> int \<Rightarrow> int \<Rightarrow> int \<Rightarrow> int \<Rightarrow> error + bool" where
  "is_valid_move_internal s from_row from_col to_row to_col =
     (case get_piece s from_row from_col of
        None \<Rightarrow> Inr False
      | Some piece \<Rightarrow>
          if from_row = to_row \<and> from_col = to_col then Inr False
          else if (case get_piece s to_row to_col of
                     None \<Rightarrow> False
                   | Some target_piece \<Rightarrow> color target_piece = color piece)
          then Inr False
          else (case piece_type piece of
                  PAWN \<Rightarrow> is_valid_pawn_move s from_row from_col to_row to_col
                | ROOK \<Rightarrow> Inr (is_valid_rook_move s from_row from_col to_row to_col)
                | KNIGHT \<Rightarrow> Inr (is_valid_knight_move from_row from_col to_row to_col)
                | BISHOP \<Rightarrow> Inr (is_valid_bishop_move s from_row from_col to_row to_col)
                | QUEEN \<Rightarrow> Inr (is_valid_queen_move s from_row from_col to_row to_col)
                | KING \<Rightarrow> Inr (is_valid_king_move s from_row from_col to_row to_col)))"

section \<open>Attack Oracle\<close>

text \<open>
  The squares in the order of the two nested \<open>for ... in range(8)\<close> loops: row by row,
  and column by column inside a row.
\<close>

definition all_squares :: "(int \<times> int) list" where
  "all_squares = concat (map (\<lambda>r. map (\<lambda>c. (r, c)) [0..7]) [0..7])"

text \<open>
  \<open>get_king_position\<close> returns the first square of that order holding a King of the
  color, and raises ValueError when the loops end without one.
\<close>

definition is_king_of :: "ChessBoard \<Rightarrow> Color \<Rightarrow> int \<times> int \<Rightarrow> bool" where
  "is_king_of s c sq =
     (case get_piece s (fst sq) (snd sq) of
        None \<Rightarrow> False
      | Some piece \<Rightarrow> piece_type piece = KING \<and> color piece = c)"

definition get_king_position :: "ChessBoard \<Rightarrow> Color \<Rightarrow> error + (int \<times> int)" where
  "get_king_position s c =
     (case find (is_king_of s c) all_squares of
        None \<Rightarrow> Inl ValueError
      | Some sq \<Rightarrow> Inr sq)"

text \<open>
  \<open>can_attack_square\<close> writes to \<open>self.board\<close>: it clears the origin, asks
  \<open>_is_valid_move_internal\<close> on the board so changed, and writes the saved entry back.
  The model returns the result with the state the call leaves. There is no
  \<open>try/finally\<close>, so an exception of the inner call would leave the origin cleared.
\<close>

definition can_attack_square ::
  "ChessBoard \<Rightarrow> int \<Rightarrow> int \<Rightarrow> int \<Rightarrow> int \<Rightarrow> (error + bool) \<times> ChessBoard" where
  "can_attack_square s from_row from_col to_row to_col =
     (case get_piece s from_row from_col of
        None \<Rightarrow> (Inr False, s)
      | Some piece \<Rightarrow>
          (let original_piece = board s ! nat from_row ! nat from_col;
               s1 = s\<lparr>board := (board s)[nat from_row :=
                        (board s ! nat from_row)[nat from_col := None]]\<rparr>
           in case is_valid_move_internal s1 from_row from_col to_row to_col of
                Inl e \<Rightarrow> (Inl e, s1)
              | Inr can_attack \<Rightarrow>
                  (Inr can_attack,
                   s1\<lparr>board := (board s1)[nat from_row :=
                        (board s1 ! nat from_row)[nat from_col := original_piece]]\<rparr>)))"

text \<open>
  \<open>is_square_attacked\<close>: the scan over the remaining squares, with the state threaded
  through the calls of \<open>can_attack_square\<close>; it returns at the first hit.
\<close>

fun is_square_attacked_scan ::
  "(int \<times> int) list \<Rightarrow> ChessBoard \<Rightarrow> int \<Rightarrow> int \<Rightarrow> Color \<Rightarrow> (error + bool) \<times> ChessBoard" where
  "is_square_attacked_scan [] s row col by_color = (Inr False, s)"
| "is_square_attacked_scan (sq # rest) s row col by_color =
     (case get_piece s (fst sq) (snd sq) of
        None \<Rightarrow> is_square_attacked_scan rest s row col by_color
      | Some piece \<Rightarrow>
          if color piece = by_color
          then (case can_attack_square s (fst sq) (snd sq) row col of
                  (Inl e, s') \<Rightarrow> (Inl e, s')
                | (Inr True, s') \<Rightarrow> (Inr True, s')
                | (Inr False, s') \<Rightarrow> is_square_attacked_scan rest s' row col by_color)
          else is_square_attacked_scan rest s row col by_color)"

definition is_square_attacked ::
  "ChessBoard \<Rightarrow> int \<Rightarrow> int \<Rightarrow> Color \<Rightarrow> (error + bool) \<times> ChessBoard" where
  "is_square_attacked s row col by_color = is_square_attacked_scan all_squares s row col by_color"

text \<open>
  \<open>is_in_check\<close> passes its own argument \<open>color\<close> on as \<open>by_color\<close>, and its
  \<open>except ValueError\<close> covers both calls of the \<open>try\<close> block.
\<close>

definition is_in_check :: "ChessBoard \<Rightarrow> Color \<Rightarrow> (error + bool) \<times> ChessBoard" where
  "is_in_check s c =
     (case get_king_position s c of
        Inl ValueError \<Rightarrow> (Inr False, s)
      | Inl e \<Rightarrow> (Inl e, s)
      | Inr (king_row, king_col) \<Rightarrow>
          (case is_square_attacked s king_row king_col c of
             (Inl ValueError, s') \<Rightarrow> (Inr False, s')
           | (Inl e, s') \<Rightarrow> (Inl e, s')
           | (Inr b, s') \<Rightarrow> (Inr b, s')))"

section \<open>Move Executor\<close>

text \<open>
  \<open>_make_move_internal\<close>, statement by statement. \<open>piece\<close> is the object of the origin
  square; setting its flag changes the entry of that square too, and the later reads of
  the board (the rook of a castling) see the flag.
\<close>

definition make_move_internal ::
  "ChessBoard \<Rightarrow> int \<Rightarrow> int \<Rightarrow> int \<Rightarrow> int \<Rightarrow> ChessBoard" where
  "make_move_internal s from_row from_col to_row to_col =
     (let s1 = (case get_piece s from_row from_col of
                  None \<Rightarrow> s
                | Some p \<Rightarrow> set_piece s from_row from_col (Some (p\<lparr>has_moved := True\<rparr>)));
          piece = get_piece s1 from_row from_col;
          s2 = (case piece of
                  None \<Rightarrow> s1
                | Some p \<Rightarrow>
                    if piece_type p = PAWN \<and> Some (to_row, to_col) = en_passant_target s1
                    then (let captured_pawn_row = to_row + (if color p = WHITE then 1 else -1)
                          in set_piece s1 captured_pawn_row to_col None)
                    else s1);
          s3 = (case piece of
                  None \<Rightarrow> s2
                | Some p \<Rightarrow>
                    if piece_type p = KING \<and> \<bar>to_col - from_col\<bar> = 2
                    then (if to_col > from_col
                          then (let rook = get_piece s2 from_row 7
                                in set_piece (set_piece s2 from_row 5 rook) from_row 7 None)
                          else (let rook = get_piece s2 from_row 0
                                in set_piece (set_piece s2 from_row 3 rook) from_row 0 None))
                    else s2);
          s4 = set_piece s3 to_row to_col piece;
          s5 = set_piece s4 from_row from_col None
      in if (case piece of None \<Rightarrow> False | Some p \<Rightarrow> piece_type p = PAWN)
            \<and> \<bar>to_row - from_row\<bar> = 2
         then s5\<lparr>en_passant_target := Some ((to_row + from_row) div 2, to_col)\<rparr>
         else s5\<lparr>en_passant_target := None\<rparr>)"

section \<open>Legal Move Validator\<close>

text \<open>
  \<open>is_valid_move\<close>. \<open>copy.deepcopy(self)\<close> duplicates the rows and the Piece objects,
  so the duplicate shares nothing with \<open>self\<close>: in the model it is the value \<open>s\<close>, and
  the executor and \<open>is_in_check\<close> run on it. The second component is the state of
  \<open>self\<close> after the call.
\<close>

definition is_valid_move ::
  "ChessBoard \<Rightarrow> int \<Rightarrow> int \<Rightarrow> int \<Rightarrow> int \<Rightarrow> (error + bool) \<times> ChessBoard" where
  "is_valid_move s from_row from_col to_row to_col =
     (case get_piece s from_row from_col of
        None \<Rightarrow> (Inr False, s)
      | Some piece \<Rightarrow>
          if color piece \<noteq> current_turn s then (Inr False, s)
          else (case is_valid_move_internal s from_row from_col to_row to_col of
                  Inl e \<Rightarrow> (Inl e, s)
                | Inr False \<Rightarrow> (Inr False, s)
                | Inr True \<Rightarrow>
                    (let temp_board = make_move_internal s from_row from_col to_row to_col
                     in case fst (is_in_check temp_board (current_turn s)) of
                          Inl e \<Rightarrow> (Inl e, s)
                        | Inr True \<Rightarrow> (Inr False, s)
                        | Inr False \<Rightarrow> (Inr True, s))))"

text \<open>
  \<open>make_move\<close>: the record is built before the executor runs, from the pieces of the
  two squares; the turn is switched last.
\<close>

definition make_move ::
  "ChessBoard \<Rightarrow> int \<Rightarrow> int \<Rightarrow> int \<Rightarrow> int \<Rightarrow> (error + bool) \<times> ChessBoard" where
  "make_move s from_row from_col to_row to_col =
     (case is_valid_move s from_row from_col to_row to_col of
        (Inl e, s0) \<Rightarrow> (Inl e, s0)
      | (Inr False, s0) \<Rightarrow> (Inr False, s0)
      | (Inr True, s0) \<Rightarrow>
          (let move_record =
                 \<lparr>mr_from = (from_row, from_col), mr_to = (to_row, to_col),
                  mr_piece = str_opt (get_piece s0 from_row from_col),
                  mr_captured = (case get_piece s0 to_row to_col of
                                   None \<Rightarrow> None
                                 | Some target \<Rightarrow> Some (Piece_str target))\<rparr>;
               s1 = make_move_internal s0 from_row from_col to_row to_col;
               s2 = s1\<lparr>move_history := move_history s1 @ [move_record]\<rparr>;
               s3 = s2\<lparr>current_turn := (if current_turn s2 = WHITE then BLACK else WHITE)\<rparr>
           in (Inr True, s3)))"

section \<open>Scenarios\<close>

text \<open>
  A run of \<open>make_move\<close> calls on one board, as the test script makes them: each call acts
  on the state the previous one left, whatever it returned.
\<close>

definition play :: "ChessBoard \<Rightarrow> (int \<times> int \<times> int \<times> int) list \<Rightarrow> ChessBoard" where
  "play s moves = fold (\<lambda>(from_row, from_col, to_row, to_col) t.
                          snd (make_move t from_row from_col to_row to_col)) moves s"

section \<open>Board access outside the board\<close>

text \<open>
  Claim C10. For every coordinate pair with the row or the column outside 0..7,
  \<open>get_piece\<close> returns None and \<open>set_piece\<close> leaves the whole state as it was; neither
  has a branch that raises.
\<close>

theorem board_access_out_of_range:
  "\<not> (0 \<le> row \<and> row < 8 \<and> 0 \<le> col \<and> col < 8) \<Longrightarrow>
     get_piece s row col = None \<and> set_piece s row col piece = s"
  by (auto simp: get_piece_def set_piece_def)

theorem board_access_out_of_range_witness:
  "\<not> (0 \<le> (8::int) \<and> (8::int) < 8 \<and> 0 \<le> (-1::int) \<and> (-1::int) < 8)
   \<and> get_piece new_ChessBoard 8 (-1) = None
   \<and> set_piece new_ChessBoard 8 (-1) (Some (new_Piece WHITE QUEEN)) = new_ChessBoard"
  using board_access_out_of_range [of 8 "-1" new_ChessBoard "Some (new_Piece WHITE QUEEN)"]
  by simp

section \<open>Facts about the model\<close>

lemma length_nth_update_row:
  "length (xs[i := (xs ! i)[j := p]] ! n) = length (xs ! n)"
proof (cases "i = n")
  case True
  show ?thesis
  proof (cases "i < length xs")
    case True
    with \<open>i = n\<close> show ?thesis by simp
  next
    case False
    then have "length xs \<le> i" by simp
    then have "xs[i := (xs ! i)[j := p]] = xs" by (rule list_update_beyond)
    then show ?thesis by simp
  qed
next
  case False
  then show ?thesis by simp
qed

lemma board_ok_set_piece [simp]: "board_ok (set_piece s r c p) = board_ok s"
  by (simp add: board_ok_def set_piece_def list_all_length length_nth_update_row)

lemma board_ok_en_passant_target [simp]:
  "board_ok (s\<lparr>en_passant_target := x\<rparr>) = board_ok s"
  by (simp add: board_ok_def)

lemma board_ok_case_option [simp]:
  "board_ok (case x of None \<Rightarrow> a | Some p \<Rightarrow> f p) =
     (case x of None \<Rightarrow> board_ok a | Some p \<Rightarrow> board_ok (f p))"
  by (cases x) simp_all

lemma board_ok_if [simp]:
  "board_ok (if c then a else b) = (if c then board_ok a else board_ok b)"
  by simp

lemma board_ok_make_move_internal:
  "board_ok (make_move_internal s fr fc tr tc) = board_ok s"
  unfolding make_move_internal_def Let_def
  by (auto split: option.split)

lemma get_piece_set_piece:
  "board_ok s \<Longrightarrow> get_piece (set_piece s r c p) r' c' =
     (if is_valid_position r c \<and> r' = r \<and> c' = c then p else get_piece s r' c')"
  by (auto simp: get_piece_def set_piece_def is_valid_position_def board_ok_def
      list_all_length nth_list_update)

lemma set_piece_fields [simp]:
  "current_turn (set_piece s r c p) = current_turn s"
  "move_history (set_piece s r c p) = move_history s"
  "en_passant_target (set_piece s r c p) = en_passant_target s"
  by (simp_all add: set_piece_def)

lemma get_piece_in_range: "get_piece s r c = Some p \<Longrightarrow> is_valid_position r c"
  by (simp add: get_piece_def is_valid_position_def split: if_splits)

lemma is_valid_pawn_move_no_raise:
  "get_piece s fr fc = Some p \<Longrightarrow> is_valid_pawn_move s fr fc tr tc \<noteq> Inl e"
  by (simp add: is_valid_pawn_move_def Let_def)

lemma is_valid_move_internal_no_raise:
  "is_valid_move_internal s fr fc tr tc \<noteq> Inl e"
proof (cases "get_piece s fr fc")
  case None
  then show ?thesis by (simp add: is_valid_move_internal_def)
next
  case (Some p)
  then show ?thesis
    using is_valid_pawn_move_no_raise [OF Some, of tr tc e]
    by (cases "piece_type p") (simp_all add: is_valid_move_internal_def)
qed

lemma is_valid_move_internal_returns:
  "\<exists>b. is_valid_move_internal s fr fc tr tc = Inr b"
  using is_valid_move_internal_no_raise [of s fr fc tr tc]
  by (cases "is_valid_move_internal s fr fc tr tc") auto

lemma clear_restore:
  "b[i := (b[i := (b ! i)[j := None]] ! i)[j := b ! i ! j]] = b"
proof (cases "i < length b")
  case True
  then show ?thesis by (simp add: list_update_same_conv)
next
  case False
  then have "length b \<le> i" by simp
  then show ?thesis by (rule list_update_beyond)
qed

lemma can_attack_square_state: "snd (can_attack_square s fr fc tr tc) = s"
proof (cases "get_piece s fr fc")
  case None
  then show ?thesis by (simp add: can_attack_square_def)
next
  case (Some piece)
  let ?s1 = "s\<lparr>board := (board s)[nat fr := (board s ! nat fr)[nat fc := None]]\<rparr>"
  obtain b where b: "is_valid_move_internal ?s1 fr fc tr tc = Inr b"
    using is_valid_move_internal_returns by blast
  show ?thesis
    using Some b by (simp add: can_attack_square_def Let_def clear_restore)
qed

lemma can_attack_square_False:
  assumes "board_ok s"
  shows "can_attack_square s fr fc tr tc = (Inr False, s)"
proof (cases "get_piece s fr fc")
  case None
  then show ?thesis by (simp add: can_attack_square_def)
next
  case (Some piece)
  let ?s1 = "s\<lparr>board := (board s)[nat fr := (board s ! nat fr)[nat fc := None]]\<rparr>"
  have r: "is_valid_position fr fc" using Some by (rule get_piece_in_range)
  have "?s1 = set_piece s fr fc None"
    using r by (simp add: set_piece_def is_valid_position_def)
  then have "get_piece ?s1 fr fc = None"
    using assms r by (simp add: get_piece_set_piece)
  then have b: "is_valid_move_internal ?s1 fr fc tr tc = Inr False"
    by (simp add: is_valid_move_internal_def)
  show ?thesis
    using Some b by (simp add: can_attack_square_def Let_def clear_restore)
qed

lemma is_square_attacked_scan_False:
  "board_ok s \<Longrightarrow> is_square_attacked_scan sqs s row col c = (Inr False, s)"
  by (induction sqs) (auto simp: can_attack_square_False split: option.splits)

lemma is_square_attacked_False:
  "board_ok s \<Longrightarrow> is_square_attacked s row col c = (Inr False, s)"
  by (simp add: is_square_attacked_def is_square_attacked_scan_False)

lemma get_king_position_cases:
  "get_king_position s c = Inl ValueError \<or> (\<exists>sq. get_king_position s c = Inr sq)"
  by (simp add: get_king_position_def split: option.splits)

lemma is_in_check_False: "board_ok s \<Longrightarrow> is_in_check s c = (Inr False, s)"
  using get_king_position_cases [of s c]
  by (auto simp: is_in_check_def is_square_attacked_False)

lemma is_valid_move_state: "snd (is_valid_move s fr fc tr tc) = s"
  by (simp add: is_valid_move_def Let_def split: option.splits sum.splits bool.splits)

lemma make_move_False_state:
  "fst (make_move s fr fc tr tc) = Inr False \<Longrightarrow> snd (make_move s fr fc tr tc) = s"
  using is_valid_move_state [of s fr fc tr tc]
  by (cases "is_valid_move s fr fc tr tc")
     (auto simp: make_move_def Let_def split: sum.splits bool.splits)

lemma no_king_find:
  "(\<forall>r c. \<not> is_king_of s c0 (r, c)) \<Longrightarrow> find (is_king_of s c0) all_squares = None"
  by (auto simp: find_None_iff)

lemma set_all_squares: "set all_squares = {0..7} \<times> {0..7}"
  by (auto simp: all_squares_def)

lemma is_king_of_on_board: "is_king_of s c0 (r, c) \<Longrightarrow> (r, c) \<in> set all_squares"
  by (auto simp: set_all_squares is_king_of_def get_piece_def split: if_splits)

lemma no_king_by_scan:
  "list_all (\<lambda>sq. \<not> is_king_of s c0 sq) all_squares \<Longrightarrow> \<forall>r c. \<not> is_king_of s c0 (r, c)"
  using is_king_of_on_board by (fastforce simp: list_all_iff)

definition holds_pawn :: "ChessBoard \<Rightarrow> int \<Rightarrow> int \<Rightarrow> bool" where
  "holds_pawn s row col =
     (case get_piece s row col of None \<Rightarrow> False | Some p \<Rightarrow> piece_type p = PAWN)"

lemma moved_piece:
  "board_ok s \<Longrightarrow> get_piece s fr fc = Some p \<Longrightarrow>
     get_piece (set_piece s fr fc (Some (p\<lparr>has_moved := True\<rparr>))) fr fc
       = Some (p\<lparr>has_moved := True\<rparr>)"
  by (simp add: get_piece_set_piece get_piece_in_range)

lemma board_ok_new_ChessBoard: "board_ok new_ChessBoard"
  by code_simp

section \<open>Rejected moves and queries leave the state alone\<close>

text \<open>
  Claim C5. Whenever \<open>make_move\<close> returns False, the state after the call is the state
  before it: the board, the turn, the en-passant target and the move history are all
  as they were.
\<close>

theorem make_move_atomic:
  "board_ok s \<Longrightarrow> fst (make_move s fr fc tr tc) = Inr False \<Longrightarrow>
     snd (make_move s fr fc tr tc) = s"
  by (rule make_move_False_state)

theorem make_move_atomic_witness:
  "board_ok new_ChessBoard \<and> fst (make_move new_ChessBoard 0 0 1 0) = Inr False
   \<and> snd (make_move new_ChessBoard 0 0 1 0) = new_ChessBoard"
proof -
  have r: "fst (make_move new_ChessBoard 0 0 1 0) = Inr False" by code_simp
  show ?thesis
    using make_move_atomic [OF board_ok_new_ChessBoard r] board_ok_new_ChessBoard r by simp
qed

text \<open>
  Claim C6. \<open>is_valid_move\<close> is a pure query: whatever it returns, the state of the board
  object after the call is the state before it (the executor ran on the duplicate only);
  and \<open>can_attack_square\<close>, which clears a square of the board it scans, has written the
  entry back when it returns.
\<close>

theorem is_valid_move_pure:
  "board_ok s \<Longrightarrow>
     snd (is_valid_move s fr fc tr tc) = s \<and> snd (can_attack_square s r c r' c') = s"
  by (simp add: is_valid_move_state can_attack_square_state)

theorem is_valid_move_pure_witness:
  "board_ok new_ChessBoard
   \<and> snd (is_valid_move new_ChessBoard 6 4 4 4) = new_ChessBoard
   \<and> snd (can_attack_square new_ChessBoard 0 3 4 4) = new_ChessBoard"
  using is_valid_move_pure [OF board_ok_new_ChessBoard, of 6 4 4 4 0 3 4 4]
    board_ok_new_ChessBoard
  by simp

section \<open>The en-passant target after a move\<close>

text \<open>
  Claim C7. After the executor has applied a move, the en-passant target is the square
  midway between origin and destination, in the destination's column, if the origin
  held a Pawn and the move changes the row by exactly two; after every other move it
  is None. The capturing move onto the target changes the row by one, so it is among
  the others.
\<close>

theorem en_passant_target_after_move:
  "board_ok s \<Longrightarrow>
     en_passant_target (make_move_internal s fr fc tr tc) =
       (if holds_pawn s fr fc \<and> tr = fr + 2 then Some (fr + 1, tc)
        else if holds_pawn s fr fc \<and> tr = fr - 2 then Some (fr - 1, tc)
        else None)"
proof (cases "get_piece s fr fc")
  case None
  then show ?thesis by (simp add: make_move_internal_def holds_pawn_def Let_def)
next
  case (Some p)
  assume ok: "board_ok s"
  have m: "get_piece (set_piece s fr fc (Some (p\<lparr>has_moved := True\<rparr>))) fr fc
             = Some (p\<lparr>has_moved := True\<rparr>)"
    using ok Some by (rule moved_piece)
  have e: "en_passant_target (make_move_internal s fr fc tr tc) =
             (if piece_type p = PAWN \<and> \<bar>tr - fr\<bar> = 2
              then Some ((tr + fr) div 2, tc) else None)"
    using Some m by (simp add: make_move_internal_def Let_def)
  have a: "\<bar>tr - fr\<bar> = 2 \<longleftrightarrow> tr = fr + 2 \<or> tr = fr - 2" by arith
  have b: "(fr + 2 + fr) div 2 = fr + 1" "(fr - 2 + fr) div 2 = fr - 1" by arith+
  show ?thesis
    using Some a b by (auto simp: e holds_pawn_def)
qed

theorem en_passant_target_after_move_witness:
  "board_ok new_ChessBoard
   \<and> en_passant_target (make_move_internal new_ChessBoard 6 4 4 4) = Some (5, 4)"
proof -
  have p: "holds_pawn new_ChessBoard 6 4" by code_simp
  show ?thesis
    using en_passant_target_after_move [OF board_ok_new_ChessBoard, of 6 4 4 4]
      board_ok_new_ChessBoard p
    by simp
qed

section \<open>A board without the King\<close>

text \<open>
  Claim C9. On a board with no King of the queried color, \<open>get_king_position\<close> raises
  ValueError and \<open>is_in_check\<close> catches it: it returns False and raises nothing.
\<close>

theorem is_in_check_without_king:
  "board_ok s \<Longrightarrow> \<forall>r c. \<not> is_king_of s c0 (r, c) \<Longrightarrow>
     get_king_position s c0 = Inl ValueError \<and> is_in_check s c0 = (Inr False, s)"
  by (simp add: get_king_position_def is_in_check_def no_king_find)

theorem is_in_check_without_king_witness:
  "board_ok (set_piece new_ChessBoard 7 4 None)
   \<and> (\<forall>r c. \<not> is_king_of (set_piece new_ChessBoard 7 4 None) WHITE (r, c))
   \<and> get_king_position (set_piece new_ChessBoard 7 4 None) WHITE = Inl ValueError
   \<and> is_in_check (set_piece new_ChessBoard 7 4 None) WHITE
       = (Inr False, set_piece new_ChessBoard 7 4 None)"
proof -
  have a: "board_ok (set_piece new_ChessBoard 7 4 None)"
    by (simp add: board_ok_new_ChessBoard)
  have "list_all (\<lambda>sq. \<not> is_king_of (set_piece new_ChessBoard 7 4 None) WHITE sq) all_squares"
    by code_simp
  then have b: "\<forall>r c. \<not> is_king_of (set_piece new_ChessBoard 7 4 None) WHITE (r, c)"
    by (rule no_king_by_scan)
  show ?thesis
    using is_in_check_without_king [OF a b] a b by simp
qed

end
